theory Spec2Isabelle
  imports Complex_Main
begin

section \<open>The auto-grading functions of \<^verbatim>\<open>src/services/supabase.ts\<close>\<close>

text \<open>
  The grading code is the family \<^verbatim>\<open>calculatePoints\<close>, \<^verbatim>\<open>gradeMultipleChoice\<close>,
  \<^verbatim>\<open>gradeMultipleSelect\<close>, \<^verbatim>\<open>gradeMatching\<close>, \<^verbatim>\<open>gradeShortAnswer\<close> and its caller
  \<^verbatim>\<open>gradeSession\<close>. The TypeScript passes \<^verbatim>\<open>any\<close> values; the shapes below are those of
  the rows of \<^verbatim>\<open>001_initial_schema.sql\<close> that the functions read.

  \<^item> A column or relation that can be \<^verbatim>\<open>null\<close> or absent is an \<open>option\<close>; this is
    what the source guards with \<^verbatim>\<open>?.\<close> and \<^verbatim>\<open>||\<close>.
  \<^item> \<^verbatim>\<open>correct_answer\<close> is an \<open>option\<close> too although the schema says NOT NULL: the
    source calls \<^verbatim>\<open>.toLowerCase()\<close> on it without a guard, which raises a TypeError on a
    key without text, and the model keeps that branch.
  \<^item> The boolean columns \<^verbatim>\<open>is_correct\<close> and \<^verbatim>\<open>is_case_sensitive\<close> are only tested for
    truthiness, so \<^verbatim>\<open>null\<close> reads as \<open>False\<close>.
  \<^item> \<^verbatim>\<open>points\<close> is the INTEGER column; scores are JavaScript numbers, modelled as exact
    rationals (no rounding). A division whose divisor is zero gives NaN or an infinity
    in JavaScript; the model reports it as the outcome \<open>NonFinite\<close> instead of a number.
  \<^item> Strings are byte strings: \<open>toLowerCase\<close> and \<open>trim\<close> act on the ASCII letters and
    the ASCII white space, other characters are left alone.
  \<^item> \<^verbatim>\<open>matching_answers\<close> is a JSON object read only through
    \<^verbatim>\<open>studentMatches[k] === right_item\<close> with \<^verbatim>\<open>right_item\<close> a string, so it is a map from
    strings to strings: a key bound to a value that is not a string behaves as an
    unbound one.
\<close>

subsection \<open>Rows\<close>

datatype failure = TypeError | NonFinite

record option_row =
  opt_id :: string
  is_correct :: bool

record pair_row =
  left_item :: string
  right_item :: string

record key_row =
  correct_answer :: "string option"
  is_case_sensitive :: bool

record question_row =
  question_type :: string
  points :: "int option"
  options :: "option_row list option"
  matching_pairs :: "pair_row list option"
  short_answer_keys :: "key_row list option"

record answer_row =
  question :: "question_row option"
  selected_options :: "string list option"
  matching_answers :: "(string \<rightharpoonup> string) option"
  answer_text :: "string option"

record graded_row = answer_row +
  is_auto_graded :: bool
  points_awarded :: rat

datatype 'a query_result = QueryError string | QueryData 'a

subsection \<open>String helpers of the JavaScript runtime\<close>

definition lowerChar :: "char \<Rightarrow> char" where
  "lowerChar c =
     (let n = (of_char c :: nat)
      in if 65 \<le> n \<and> n \<le> 90 then char_of (n + 32) else c)"

definition toLowerCase :: "string \<Rightarrow> string" where
  "toLowerCase s = map lowerChar s"

definition isWhiteSpace :: "char \<Rightarrow> bool" where
  "isWhiteSpace c =
     (let n = (of_char c :: nat)
      in n = 32 \<or> (9 \<le> n \<and> n \<le> 13))"

definition trim :: "string \<Rightarrow> string" where
  "trim s = rev (dropWhile isWhiteSpace (rev (dropWhile isWhiteSpace s)))"

subsection \<open>Number helpers\<close>

text \<open>\<^verbatim>\<open>question.points || 1\<close>: a missing or zero \<^verbatim>\<open>points\<close> is falsy.\<close>

definition pointsOrOne :: "question_row \<Rightarrow> rat" where
  "pointsOrOne q =
     (case points q of
        None \<Rightarrow> 1
      | Some p \<Rightarrow> if p = 0 then 1 else of_int p)"

text \<open>The operator \<^verbatim>\<open>/\<close>; a zero divisor yields no finite number.\<close>

definition js_divide :: "rat \<Rightarrow> rat \<Rightarrow> failure + rat" where
  "js_divide x y = (if y = 0 then Inl NonFinite else Inr (x / y))"

subsection \<open>The scorers\<close>

text \<open>
  Each \<^verbatim>\<open>const\<close> that a scorer binds from its arguments is a definition of the same
  name, so that the theorems can speak about it.
\<close>

text \<open>\<^verbatim>\<open>answer.selected_options?.[0]\<close>\<close>

definition selectedOptionId :: "answer_row \<Rightarrow> string option" where
  "selectedOptionId a =
     (case selected_options a of
        None \<Rightarrow> None
      | Some [] \<Rightarrow> None
      | Some (s # rest) \<Rightarrow> Some s)"

text \<open>\<^verbatim>\<open>question.options?.find((opt) => opt.is_correct)\<close>\<close>

definition correctOption :: "question_row \<Rightarrow> option_row option" where
  "correctOption q = (case options q of None \<Rightarrow> None | Some opts \<Rightarrow> find is_correct opts)"

definition gradeMultipleChoice :: "answer_row \<Rightarrow> question_row \<Rightarrow> failure + rat" where
  "gradeMultipleChoice a q =
     (case correctOption q of
        None \<Rightarrow> Inr 0
      | Some c \<Rightarrow>
          if selectedOptionId a = Some (opt_id c) then Inr (pointsOrOne q) else Inr 0)"

text \<open>\<^verbatim>\<open>answer.selected_options || []\<close>\<close>

definition selectedIds :: "answer_row \<Rightarrow> string list" where
  "selectedIds a = (case selected_options a of None \<Rightarrow> [] | Some ids \<Rightarrow> ids)"

text \<open>\<^verbatim>\<open>question.options?.filter((opt) => opt.is_correct) || []\<close>\<close>

definition correctOptions :: "question_row \<Rightarrow> option_row list" where
  "correctOptions q = (case options q of None \<Rightarrow> [] | Some opts \<Rightarrow> filter is_correct opts)"

definition correctIds :: "question_row \<Rightarrow> string list" where
  "correctIds q = map opt_id (correctOptions q)"

definition gradeMultipleSelect :: "answer_row \<Rightarrow> question_row \<Rightarrow> failure + rat" where
  "gradeMultipleSelect a q =
     (if length (correctOptions q) = 0 then Inr 0
      else
        let correctSelected = length (filter (\<lambda>i. i \<in> set (correctIds q)) (selectedIds a));
            incorrectSelected = int (length (selectedIds a)) - int correctSelected
        in case js_divide (of_int (int correctSelected - incorrectSelected))
                  (of_nat (length (correctIds q))) of
             Inl e \<Rightarrow> Inl e
           | Inr score \<Rightarrow> Inr (max 0 score * pointsOrOne q))"

text \<open>\<^verbatim>\<open>answer.matching_answers || {}\<close> and \<^verbatim>\<open>question.matching_pairs || []\<close>\<close>

definition studentMatches :: "answer_row \<Rightarrow> (string \<rightharpoonup> string)" where
  "studentMatches a = (case matching_answers a of None \<Rightarrow> Map.empty | Some m \<Rightarrow> m)"

definition correctPairs :: "question_row \<Rightarrow> pair_row list" where
  "correctPairs q = (case matching_pairs q of None \<Rightarrow> [] | Some ps \<Rightarrow> ps)"

text \<open>The body of the \<^verbatim>\<open>forEach\<close> of \<^verbatim>\<open>gradeMatching\<close>, on the counter.\<close>

definition countPair :: "(string \<rightharpoonup> string) \<Rightarrow> pair_row \<Rightarrow> nat \<Rightarrow> nat" where
  "countPair m pair correctCount =
     (if m (left_item pair) = Some (right_item pair)
      then correctCount + 1 else correctCount)"

definition gradeMatching :: "answer_row \<Rightarrow> question_row \<Rightarrow> failure + rat" where
  "gradeMatching a q =
     (if length (correctPairs q) = 0 then Inr 0
      else
        let correctCount = fold (countPair (studentMatches a)) (correctPairs q) 0
        in case js_divide (of_nat correctCount) (of_nat (length (correctPairs q))) of
             Inl e \<Rightarrow> Inl e
           | Inr fraction \<Rightarrow> Inr (fraction * pointsOrOne q))"

text \<open>\<^verbatim>\<open>(answer.answer_text || '').trim().toLowerCase()\<close> and
  \<^verbatim>\<open>question.short_answer_keys || []\<close>\<close>

definition studentAnswer :: "answer_row \<Rightarrow> string" where
  "studentAnswer a =
     toLowerCase (trim (case answer_text a of None \<Rightarrow> [] | Some t \<Rightarrow> t))"

definition correctAnswers :: "question_row \<Rightarrow> key_row list" where
  "correctAnswers q = (case short_answer_keys q of None \<Rightarrow> [] | Some ks \<Rightarrow> ks)"

text \<open>The \<^verbatim>\<open>for ... of\<close> loop of \<^verbatim>\<open>gradeShortAnswer\<close> over the remaining keys.\<close>

fun shortAnswerLoop :: "string \<Rightarrow> question_row \<Rightarrow> key_row list \<Rightarrow> failure + rat" where
  "shortAnswerLoop student q [] = Inr 0"
| "shortAnswerLoop student q (correct # rest) =
     (case correct_answer correct of
        None \<Rightarrow> Inl TypeError
      | Some text \<Rightarrow>
          (let correctText = toLowerCase text
           in if is_case_sensitive correct then
                (if student = correctText then Inr (pointsOrOne q)
                 else shortAnswerLoop student q rest)
              else
                (if student = toLowerCase correctText then Inr (pointsOrOne q)
                 else shortAnswerLoop student q rest)))"

definition gradeShortAnswer :: "answer_row \<Rightarrow> question_row \<Rightarrow> failure + rat" where
  "gradeShortAnswer a q = shortAnswerLoop (studentAnswer a) q (correctAnswers q)"

subsection \<open>The dispatcher and the batch\<close>

definition calculatePoints :: "answer_row \<Rightarrow> failure + rat" where
  "calculatePoints a =
     (case question a of
        None \<Rightarrow> Inr 0
      | Some q \<Rightarrow>
          if question_type q = ''multiple_choice'' then gradeMultipleChoice a q
          else if question_type q = ''multiple_select'' then gradeMultipleSelect a q
          else if question_type q = ''matching'' then gradeMatching a q
          else if question_type q = ''short_answer'' then gradeShortAnswer a q
          else Inr 0)"

text \<open>
  \<^verbatim>\<open>answers.map(answer => ({...answer, is_auto_graded: true, points_awarded:
  calculatePoints(answer)}))\<close>: an exception in one row leaves the whole \<^verbatim>\<open>map\<close>.
\<close>

fun gradeRows :: "answer_row list \<Rightarrow> failure + graded_row list" where
  "gradeRows [] = Inr []"
| "gradeRows (a # as) =
     (case calculatePoints a of
        Inl e \<Rightarrow> Inl e
      | Inr p \<Rightarrow>
          (case gradeRows as of
             Inl e \<Rightarrow> Inl e
           | Inr gs \<Rightarrow>
               Inr (answer_row.extend a
                      (graded_row.fields True p) # gs)))"

text \<open>
  \<^verbatim>\<open>gradeSession\<close>, given what the query on \<^verbatim>\<open>student_answers\<close> returned.
\<close>

definition gradeSession :: "answer_row list query_result \<Rightarrow> failure + graded_row list query_result" where
  "gradeSession fetched =
     (case fetched of
        QueryError e \<Rightarrow> Inr (QueryError e)
      | QueryData answers \<Rightarrow>
          (case gradeRows answers of
             Inl e \<Rightarrow> Inl e
           | Inr gradedAnswers \<Rightarrow> Inr (QueryData gradedAnswers)))"

subsection \<open>Example rows\<close>

text \<open>Rows used to run the scorers on concrete inputs.\<close>

definition blankQuestion :: "string \<Rightarrow> int option \<Rightarrow> question_row" where
  "blankQuestion t p =
     \<lparr>question_type = t, points = p, options = None, matching_pairs = None,
      short_answer_keys = None\<rparr>"

definition blankAnswer :: "question_row \<Rightarrow> answer_row" where
  "blankAnswer q =
     \<lparr>question = Some q, selected_options = None, matching_answers = None,
      answer_text = None\<rparr>"

text \<open>A multiple-select question with options A, B (correct) and C, D (incorrect).\<close>

definition selectQuestion :: "int option \<Rightarrow> question_row" where
  "selectQuestion p =
     (blankQuestion ''multiple_select'' p)
       \<lparr>options := Some [\<lparr>opt_id = ''A'', is_correct = True\<rparr>,
                         \<lparr>opt_id = ''B'', is_correct = True\<rparr>,
                         \<lparr>opt_id = ''C'', is_correct = False\<rparr>,
                         \<lparr>opt_id = ''D'', is_correct = False\<rparr>]\<rparr>"

text \<open>A multiple-choice question with options A (correct), B and C (incorrect).\<close>

definition choiceQuestion :: "int option \<Rightarrow> question_row" where
  "choiceQuestion p =
     (blankQuestion ''multiple_choice'' p)
       \<lparr>options := Some [\<lparr>opt_id = ''A'', is_correct = True\<rparr>,
                         \<lparr>opt_id = ''B'', is_correct = False\<rparr>,
                         \<lparr>opt_id = ''C'', is_correct = False\<rparr>]\<rparr>"

definition selecting :: "string list \<Rightarrow> question_row \<Rightarrow> answer_row" where
  "selecting ids q = (blankAnswer q)\<lparr>selected_options := Some ids\<rparr>"

text \<open>A matching question with the pairs cat -> kucing and dog -> anjing.\<close>

definition matchQuestion :: "int option \<Rightarrow> question_row" where
  "matchQuestion p =
     (blankQuestion ''matching'' p)
       \<lparr>matching_pairs := Some [\<lparr>left_item = ''cat'', right_item = ''kucing''\<rparr>,
                                \<lparr>left_item = ''dog'', right_item = ''anjing''\<rparr>]\<rparr>"

definition matchingWith :: "(string \<rightharpoonup> string) \<Rightarrow> question_row \<Rightarrow> answer_row" where
  "matchingWith m q = (blankAnswer q)\<lparr>matching_answers := Some m\<rparr>"

text \<open>A short-answer question with the single key "Paris".\<close>

definition parisQuestion :: "bool \<Rightarrow> int option \<Rightarrow> question_row" where
  "parisQuestion caseSensitive p =
     (blankQuestion ''short_answer'' p)
       \<lparr>short_answer_keys :=
          Some [\<lparr>correct_answer = Some ''Paris'', is_case_sensitive = caseSensitive\<rparr>]\<rparr>"

text \<open>A short-answer question whose only key has no text.\<close>

definition textlessKeyQuestion :: question_row where
  "textlessKeyQuestion =
     (blankQuestion ''short_answer'' (Some 1))
       \<lparr>short_answer_keys := Some [\<lparr>correct_answer = None, is_case_sensitive = False\<rparr>]\<rparr>"

definition writing :: "string \<Rightarrow> question_row \<Rightarrow> answer_row" where
  "writing t q = (blankAnswer q)\<lparr>answer_text := Some t\<rparr>"

lemmas example_defs =
  blankQuestion_def blankAnswer_def selectQuestion_def choiceQuestion_def selecting_def
  matchQuestion_def matchingWith_def parisQuestion_def textlessKeyQuestion_def writing_def

lemmas local_defs =
  selectedOptionId_def correctOption_def selectedIds_def correctOptions_def correctIds_def
  studentMatches_def correctPairs_def correctAnswers_def pointsOrOne_def js_divide_def

section \<open>Auxiliary facts\<close>

subsection \<open>Strings\<close>

lemma lowerChar_idem: "lowerChar (lowerChar c) = lowerChar c"
  unfolding lowerChar_def Let_def by auto

lemma toLowerCase_idem: "toLowerCase (toLowerCase s) = toLowerCase s"
  by (simp add: toLowerCase_def lowerChar_idem)

lemma lower_Paris: "toLowerCase ''Paris'' = ''paris''"
  by code_simp

lemma lower_paris: "toLowerCase ''paris'' = ''paris''"
  by code_simp

lemma trim_Paris: "trim ''Paris'' = ''Paris''"
  by code_simp

lemma trim_paris: "trim ''paris'' = ''paris''"
  by code_simp

subsection \<open>Maximum points\<close>

lemma pointsOrOne_nonzero: "points q = Some p \<Longrightarrow> p \<noteq> 0 \<Longrightarrow> pointsOrOne q = of_int p"
  by (simp add: pointsOrOne_def)

lemma pointsOrOne_fallback: "points q = None \<or> points q = Some 0 \<Longrightarrow> pointsOrOne q = 1"
  by (auto simp: pointsOrOne_def)

lemma unit_fraction_bound:
  fixes f P :: rat
  assumes "0 \<le> f" "f \<le> 1" "0 < P"
  shows "0 \<le> f * P \<and> f * P \<le> P"
  using assms by (simp add: mult_left_le_one_le)

subsection \<open>Multiple choice\<close>

lemma find_filter: "find P xs = (case filter P xs of [] \<Rightarrow> None | x # _ \<Rightarrow> Some x)"
  by (induction xs) auto

lemma correctOption_first:
  "correctOption q = (case correctOptions q of [] \<Rightarrow> None | c # _ \<Rightarrow> Some c)"
  by (simp add: correctOption_def correctOptions_def find_filter split: option.splits)

lemma selectedOptionId_Some:
  "selectedOptionId a = Some s \<longleftrightarrow> (\<exists>rest. selected_options a = Some (s # rest))"
  by (auto simp: selectedOptionId_def split: option.splits list.splits)

lemma gradeMultipleChoice_cases:
  "gradeMultipleChoice a q = Inr 0 \<or> gradeMultipleChoice a q = Inr (pointsOrOne q)"
  by (simp add: gradeMultipleChoice_def split: option.splits)

subsection \<open>Multiple select\<close>

lemma correctSelected_card:
  "distinct S \<Longrightarrow> length (filter (\<lambda>i. i \<in> C) S) = card (C \<inter> set S)"
  by (simp add: distinct_length_filter)

lemma gradeMultipleSelect_eq:
  assumes "correctOptions q \<noteq> []"
  shows "gradeMultipleSelect a q =
    Inr (max 0 ((of_int (int (length (filter (\<lambda>i. i \<in> set (correctIds q)) (selectedIds a)))
                   - (int (length (selectedIds a))
                      - int (length (filter (\<lambda>i. i \<in> set (correctIds q)) (selectedIds a))))))
                / of_nat (length (correctIds q))) * pointsOrOne q)"
  using assms by (simp add: gradeMultipleSelect_def js_divide_def Let_def correctIds_def)

lemma gradeMultipleSelect_bound:
  assumes "distinct (selectedIds a)" "0 < pointsOrOne q"
  shows "\<exists>r. gradeMultipleSelect a q = Inr r \<and> 0 \<le> r \<and> r \<le> pointsOrOne q"
proof (cases "correctOptions q = []")
  case True
  with assms(2) show ?thesis by (simp add: gradeMultipleSelect_def)
next
  case False
  let ?cs = "length (filter (\<lambda>i. i \<in> set (correctIds q)) (selectedIds a))"
  let ?n = "length (correctIds q)"
  let ?d = "(of_int (int ?cs - (int (length (selectedIds a)) - int ?cs)) :: rat) / of_nat ?n"
  from False have n: "0 < ?n" by (simp add: correctIds_def)
  have "?cs = card (set (correctIds q) \<inter> set (selectedIds a))"
    by (rule correctSelected_card[OF assms(1)])
  also have "\<dots> \<le> card (set (correctIds q))"
    by (intro card_mono) auto
  also have "\<dots> \<le> ?n" by (rule card_length)
  finally have cs: "?cs \<le> ?n" .
  have "?cs \<le> length (selectedIds a)" by (rule length_filter_le)
  with cs have "int ?cs - (int (length (selectedIds a)) - int ?cs) \<le> int ?n" by linarith
  then have "(of_int (int ?cs - (int (length (selectedIds a)) - int ?cs)) :: rat) \<le> of_nat ?n"
    by (metis of_int_le_iff of_int_of_nat_eq)
  with n have "?d \<le> 1" by (simp add: divide_le_eq_1)
  then have "0 \<le> max 0 ?d" "max 0 ?d \<le> 1" by simp_all
  from unit_fraction_bound[OF this assms(2)] show ?thesis
    unfolding gradeMultipleSelect_eq[OF False] by blast
qed

subsection \<open>Matching\<close>

lemma fold_countPair:
  "fold (countPair m) ps n =
     n + length (filter (\<lambda>pr. m (left_item pr) = Some (right_item pr)) ps)"
  by (induction ps arbitrary: n) (auto simp: countPair_def)

lemma gradeMatching_eq:
  assumes "correctPairs q \<noteq> []"
  shows "gradeMatching a q =
    Inr (of_nat (length (filter (\<lambda>pr. studentMatches a (left_item pr) = Some (right_item pr))
                           (correctPairs q)))
           / of_nat (length (correctPairs q)) * pointsOrOne q)"
  using assms by (simp add: gradeMatching_def js_divide_def Let_def fold_countPair)

lemma gradeMatching_bound:
  assumes "0 < pointsOrOne q"
  shows "\<exists>r. gradeMatching a q = Inr r \<and> 0 \<le> r \<and> r \<le> pointsOrOne q"
proof (cases "correctPairs q = []")
  case True
  with assms show ?thesis by (simp add: gradeMatching_def)
next
  case False
  let ?c = "length (filter (\<lambda>pr. studentMatches a (left_item pr) = Some (right_item pr))
                      (correctPairs q))"
  let ?m = "length (correctPairs q)"
  from False have m: "0 < ?m" by simp
  have "?c \<le> ?m" by (rule length_filter_le)
  then have "(of_nat ?c :: rat) \<le> of_nat ?m" by (simp only: of_nat_le_iff)
  with m have "(of_nat ?c :: rat) / of_nat ?m \<le> 1" by (simp add: divide_le_eq_1)
  moreover have "0 \<le> (of_nat ?c :: rat) / of_nat ?m" by simp
  ultimately show ?thesis
    using unit_fraction_bound[OF _ _ assms] unfolding gradeMatching_eq[OF False] by blast
qed

subsection \<open>Short answer\<close>

lemma shortAnswerLoop_flags:
  "map correct_answer ks = map correct_answer ks' \<Longrightarrow>
   shortAnswerLoop s q ks = shortAnswerLoop s q ks'"
proof (induction ks arbitrary: ks')
  case Nil
  then show ?case by simp
next
  case (Cons k ks)
  then obtain k' rest where e: "ks' = k' # rest" by (cases ks') auto
  with Cons.prems have "correct_answer k = correct_answer k'"
    "map correct_answer ks = map correct_answer rest" by auto
  with Cons.IH[of rest] show ?case unfolding e
    by (simp add: toLowerCase_idem Let_def split: option.splits)
qed

lemma shortAnswerLoop_points:
  "pointsOrOne q = pointsOrOne q' \<Longrightarrow> shortAnswerLoop s q ks = shortAnswerLoop s q' ks"
  by (induction ks) (simp_all add: Let_def toLowerCase_idem split: option.splits)

lemma shortAnswerLoop_cases:
  "list_all (\<lambda>k. correct_answer k \<noteq> None) ks \<Longrightarrow>
   shortAnswerLoop s q ks = Inr 0 \<or> shortAnswerLoop s q ks = Inr (pointsOrOne q)"
  by (induction ks) (auto simp: Let_def split: option.splits)

subsection \<open>Missing payloads and totality\<close>

lemma shortAnswerLoop_total:
  "list_all (\<lambda>k. correct_answer k \<noteq> None) ks \<Longrightarrow> \<exists>r. shortAnswerLoop s q ks = Inr r"
  using shortAnswerLoop_cases[of ks s q] by auto

lemma shortAnswerLoop_empty_answer:
  "list_all (\<lambda>k. correct_answer k \<noteq> None \<and> correct_answer k \<noteq> Some []) ks \<Longrightarrow>
   shortAnswerLoop [] q ks = Inr 0"
  by (induction ks) (auto simp: Let_def toLowerCase_def split: option.splits)

lemma shortAnswerLoop_match:
  "list_all (\<lambda>k. correct_answer k \<noteq> None) ks \<Longrightarrow>
   \<exists>k \<in> set ks. \<exists>t. correct_answer k = Some t \<and> toLowerCase t = s \<Longrightarrow>
   shortAnswerLoop s q ks = Inr (pointsOrOne q)"
  by (induction ks) (auto simp: Let_def toLowerCase_idem split: option.splits)

lemma studentAnswer_missing: "answer_text a = None \<Longrightarrow> studentAnswer a = []"
  by (simp add: studentAnswer_def trim_def toLowerCase_def)

lemma gradeMultipleSelect_nothing_selected:
  "selected_options a = None \<Longrightarrow> gradeMultipleSelect a q = Inr 0"
  by (simp add: gradeMultipleSelect_def selectedIds_def js_divide_def Let_def correctIds_def)

lemma gradeMatching_nothing_matched:
  "matching_answers a = None \<Longrightarrow> gradeMatching a q = Inr 0"
  by (simp add: gradeMatching_def studentMatches_def js_divide_def Let_def fold_countPair)

lemma gradeMultipleChoice_nothing_selected:
  "selected_options a = None \<Longrightarrow> gradeMultipleChoice a q = Inr 0"
  by (simp add: gradeMultipleChoice_def selectedOptionId_def split: option.splits)

lemma gradeMultipleSelect_total: "\<exists>r. gradeMultipleSelect a q = Inr r"
  by (cases "correctOptions q = []")
     (simp_all add: gradeMultipleSelect_def js_divide_def Let_def correctIds_def)

lemma gradeMatching_total: "\<exists>r. gradeMatching a q = Inr r"
  by (cases "correctPairs q = []") (simp_all add: gradeMatching_def js_divide_def Let_def)

lemma gradeMultipleChoice_total: "\<exists>r. gradeMultipleChoice a q = Inr r"
  using gradeMultipleChoice_cases[of a q] by auto

subsection \<open>Fully correct answers\<close>

lemma pointsOrOne_points_update:
  "points q = None \<or> points q = Some 0 \<Longrightarrow> pointsOrOne (q\<lparr>points := Some 1\<rparr>) = pointsOrOne q"
  by (auto simp: pointsOrOne_def)

lemma gradeMultipleSelect_all_correct:
  assumes "correctIds q \<noteq> []" "distinct (correctIds q)" "distinct (selectedIds a)"
    "set (selectedIds a) = set (correctIds q)"
  shows "gradeMultipleSelect a q = Inr (pointsOrOne q)"
proof -
  from assms(1) have ne: "correctOptions q \<noteq> []" by (auto simp: correctIds_def)
  have cs: "length (filter (\<lambda>i. i \<in> set (correctIds q)) (selectedIds a)) = length (correctIds q)"
    using correctSelected_card[OF assms(3), of "set (correctIds q)"] assms(4)
      distinct_card[OF assms(2)] by simp
  have len: "length (selectedIds a) = length (correctIds q)"
    using distinct_card[OF assms(2)] distinct_card[OF assms(3)] assms(4) by simp
  from assms(1) show ?thesis
    unfolding gradeMultipleSelect_eq[OF ne] cs len by simp
qed

lemma gradeMatching_all_matched:
  assumes "correctPairs q \<noteq> []"
    "\<forall>pr \<in> set (correctPairs q). studentMatches a (left_item pr) = Some (right_item pr)"
  shows "gradeMatching a q = Inr (pointsOrOne q)"
proof -
  from assms(2) have
    "filter (\<lambda>pr. studentMatches a (left_item pr) = Some (right_item pr)) (correctPairs q)
       = correctPairs q"
    by (simp add: filter_id_conv)
  with assms(1) show ?thesis
    unfolding gradeMatching_eq[OF assms(1)] by simp
qed

lemma gradeMultipleChoice_correct:
  "correctOptions q = c # others \<Longrightarrow> selected_options a = Some (opt_id c # rest) \<Longrightarrow>
   gradeMultipleChoice a q = Inr (pointsOrOne q)"
  by (simp add: gradeMultipleChoice_def correctOption_first selectedOptionId_def)

section \<open>The claims\<close>

text \<open>
  \<^bold>\<open>C1\<close> (as amended). The claim: for every non-essay question and every answer,
  \<open>0 \<le> calculatePoints \<le> q.points\<close>. It does not hold for every row the code accepts
  (see the counterexample below). What holds: when \<^verbatim>\<open>points\<close> is not negative, the
  selected option ids of a multiple-select answer are pairwise distinct and every key
  of a short-answer question has a text, \<open>calculatePoints\<close> returns a number \<open>r\<close> with
  \<open>0 \<le> r \<le> question.points || 1\<close>, for every question type; so \<open>r \<le> points\<close> whenever
  \<^verbatim>\<open>points\<close> is a positive integer.
\<close>

theorem calculatePoints_bounded:
  assumes q: "question a = Some q"
    and nonneg: "\<And>p. points q = Some p \<Longrightarrow> 0 \<le> p"
    and sel: "question_type q = ''multiple_select'' \<Longrightarrow> distinct (selectedIds a)"
    and keys: "question_type q = ''short_answer'' \<Longrightarrow>
                 list_all (\<lambda>k. correct_answer k \<noteq> None) (correctAnswers q)"
  shows "\<exists>r. calculatePoints a = Inr r \<and> 0 \<le> r \<and> r \<le> pointsOrOne q
           \<and> (\<forall>p. points q = Some p \<and> 0 < p \<longrightarrow> r \<le> of_int p)"
proof -
  have pos: "0 < pointsOrOne q"
  proof (cases "points q")
    case None
    then show ?thesis by (simp add: pointsOrOne_def)
  next
    case (Some p)
    with nonneg[OF Some] show ?thesis by (simp add: pointsOrOne_def)
  qed
  have P: "pointsOrOne q = of_int p" if "points q = Some p" "0 < p" for p
    using that by (simp add: pointsOrOne_nonzero)
  have bounded: "\<exists>r. calculatePoints a = Inr r \<and> 0 \<le> r \<and> r \<le> pointsOrOne q"
  proof -
    consider (mc) "question_type q = ''multiple_choice''"
      | (ms) "question_type q = ''multiple_select''"
      | (ma) "question_type q = ''matching''"
      | (sa) "question_type q = ''short_answer''"
      | (other) "question_type q \<noteq> ''multiple_choice''" "question_type q \<noteq> ''multiple_select''"
          "question_type q \<noteq> ''matching''" "question_type q \<noteq> ''short_answer''"
      by blast
    then show ?thesis
    proof cases
      case mc
      then have "calculatePoints a = gradeMultipleChoice a q"
        by (simp add: calculatePoints_def q)
      with gradeMultipleChoice_cases[of a q] pos show ?thesis by auto
    next
      case ms
      then have "calculatePoints a = gradeMultipleSelect a q"
        by (simp add: calculatePoints_def q)
      with gradeMultipleSelect_bound[OF sel[OF ms] pos] show ?thesis by simp
    next
      case ma
      then have "calculatePoints a = gradeMatching a q"
        by (simp add: calculatePoints_def q)
      with gradeMatching_bound[OF pos] show ?thesis by simp
    next
      case sa
      then have "calculatePoints a = gradeShortAnswer a q"
        by (simp add: calculatePoints_def q)
      with shortAnswerLoop_cases[OF keys[OF sa], of "studentAnswer a" q] pos show ?thesis
        unfolding gradeShortAnswer_def by auto
    next
      case other
      then have "calculatePoints a = Inr 0"
        by (simp add: calculatePoints_def q)
      with pos show ?thesis by simp
    qed
  qed
  then obtain r where r: "calculatePoints a = Inr r" "0 \<le> r" "r \<le> pointsOrOne q" by blast
  from r(3) P have "\<forall>p. points q = Some p \<and> 0 < p \<longrightarrow> r \<le> of_int p" by auto
  with r show ?thesis by blast
qed

theorem calculatePoints_bounded_witness:
  "\<exists>r. calculatePoints (selecting [''A''] (selectQuestion (Some 4))) = Inr r \<and> 0 \<le> r \<and> r \<le> 4"
proof -
  let ?q = "selectQuestion (Some 4)"
  let ?a = "selecting [''A''] ?q"
  have h: "question ?a = Some ?q" "\<And>p. points ?q = Some p \<Longrightarrow> 0 \<le> p"
    "question_type ?q = ''multiple_select'' \<Longrightarrow> distinct (selectedIds ?a)"
    "question_type ?q = ''short_answer'' \<Longrightarrow>
       list_all (\<lambda>k. correct_answer k \<noteq> None) (correctAnswers ?q)"
    by (simp_all add: example_defs selectedIds_def)
  have p: "points ?q = Some 4 \<and> (0::int) < 4" by (simp add: example_defs)
  from calculatePoints_bounded [OF h] obtain r where
    "calculatePoints ?a = Inr r" "0 \<le> r" "\<forall>p. points ?q = Some p \<and> 0 < p \<longrightarrow> r \<le> of_int p"
    by blast
  with p have "calculatePoints ?a = Inr r \<and> 0 \<le> r \<and> r \<le> 4" by fastforce
  then show ?thesis by blast
qed

text \<open>
  The bound fails outside these conditions: a correct answer to a question with
  \<^verbatim>\<open>points = 0\<close> is awarded 1 (the \<^verbatim>\<open>|| 1\<close> fallback); the selection A, B, A, B on a
  4-point question whose correct options are A and B is awarded 8; a question with
  \<^verbatim>\<open>points = -2\<close> awards \<open>-2\<close>; and a short-answer key without text gives no score at
  all.
\<close>

theorem calculatePoints_unbounded_counterexample:
  "calculatePoints (selecting [''A''] (choiceQuestion (Some 0))) = Inr 1
   \<and> calculatePoints (selecting [''A'', ''B'', ''A'', ''B''] (selectQuestion (Some 4))) = Inr 8
   \<and> calculatePoints (selecting [''A''] (choiceQuestion (Some (- 2)))) = Inr (- 2)
   \<and> calculatePoints (writing ''x'' textlessKeyQuestion) = Inl TypeError"
  by (simp add: example_defs local_defs calculatePoints_def gradeMultipleChoice_def
      gradeMultipleSelect_def gradeShortAnswer_def)

text \<open>
  \<^bold>\<open>C2\<close>. The claim: for a key with \<^verbatim>\<open>is_case_sensitive = true\<close> the normalized student
  answer is compared with the raw key text, so that for the key "Paris" the answer
  "paris" scores 0. The source lower-cases the key text before it looks at the flag
  (\<^verbatim>\<open>const correctText = correct.correct_answer.toLowerCase()\<close>), so with the
  case-sensitive key "Paris" and 5 points both "paris" and "Paris" score 5.
\<close>

theorem case_sensitive_key_matches_lower_case_answer:
  "gradeShortAnswer (writing ''paris'' (parisQuestion True (Some 5))) (parisQuestion True (Some 5)) = Inr 5
   \<and> gradeShortAnswer (writing ''Paris'' (parisQuestion True (Some 5))) (parisQuestion True (Some 5)) = Inr 5"
  by (simp add: example_defs local_defs gradeShortAnswer_def studentAnswer_def
      lower_Paris lower_paris trim_Paris trim_paris)

text \<open>
  \<^bold>\<open>C3\<close> (as amended). The claim: full points exactly when a single option is selected
  and it is the unique correct one, 0 otherwise, also when more than one option is
  selected. The source reads only \<^verbatim>\<open>selected_options?.[0]\<close> and the first option flagged
  \<^verbatim>\<open>is_correct\<close>. What holds: if \<open>c\<close> is the first correct option (the unique one when
  \<open>others = []\<close>), the score is the full points \<^verbatim>\<open>question.points || 1\<close> exactly when the
  first selected id is the id of \<open>c\<close>, whatever is selected after it, and 0 otherwise;
  it is 0 when no option is correct and 0 when nothing is selected.
\<close>

theorem gradeMultipleChoice_first_selected:
  "(correctOptions q = c # others \<longrightarrow>
      gradeMultipleChoice a q =
        (if \<exists>rest. selected_options a = Some (opt_id c # rest)
         then Inr (pointsOrOne q) else Inr 0))
   \<and> (correctOptions q = [] \<longrightarrow> gradeMultipleChoice a q = Inr 0)
   \<and> (selectedIds a = [] \<longrightarrow> gradeMultipleChoice a q = Inr 0)"
proof -
  have "selectedIds a = [] \<Longrightarrow> selectedOptionId a = None"
    by (auto simp: selectedIds_def selectedOptionId_def split: option.splits)
  then show ?thesis
    by (auto simp: gradeMultipleChoice_def correctOption_first selectedOptionId_Some
             split: list.splits)
qed

theorem gradeMultipleChoice_first_selected_witness:
  "gradeMultipleChoice (selecting [''A''] (choiceQuestion (Some 3))) (choiceQuestion (Some 3)) = Inr 3
   \<and> gradeMultipleChoice (selecting [''B''] (choiceQuestion (Some 3))) (choiceQuestion (Some 3)) = Inr 0
   \<and> gradeMultipleChoice (selecting [] (choiceQuestion (Some 3))) (choiceQuestion (Some 3)) = Inr 0
   \<and> gradeMultipleChoice (selecting [''A''] (blankQuestion ''multiple_choice'' (Some 3)))
        (blankQuestion ''multiple_choice'' (Some 3)) = Inr 0"
  using gradeMultipleChoice_first_selected [of "choiceQuestion (Some 3)"
      "\<lparr>opt_id = ''A'', is_correct = True\<rparr>" "[]" "selecting [''A''] (choiceQuestion (Some 3))"]
    gradeMultipleChoice_first_selected [of "choiceQuestion (Some 3)"
      "\<lparr>opt_id = ''A'', is_correct = True\<rparr>" "[]" "selecting [''B''] (choiceQuestion (Some 3))"]
    gradeMultipleChoice_first_selected [of "choiceQuestion (Some 3)"
      "\<lparr>opt_id = ''A'', is_correct = True\<rparr>" "[]" "selecting [] (choiceQuestion (Some 3))"]
    gradeMultipleChoice_first_selected [of "blankQuestion ''multiple_choice'' (Some 3)"
      "\<lparr>opt_id = ''A'', is_correct = True\<rparr>" "[]"
      "selecting [''A''] (blankQuestion ''multiple_choice'' (Some 3))"]
  by (simp add: example_defs local_defs)

text \<open>Selecting A and B, with A the correct option, scores the full 3 points, not 0.\<close>

theorem second_selection_ignored_counterexample:
  "gradeMultipleChoice (selecting [''A'', ''B''] (choiceQuestion (Some 3))) (choiceQuestion (Some 3)) = Inr 3"
  by (simp add: example_defs local_defs gradeMultipleChoice_def)

text \<open>
  \<^bold>\<open>C4\<close> (as amended). The claim: the score is
  \<open>max 0 ((|C \<inter> S| - (|S| - |C \<inter> S|)) / n) * points\<close>. The source multiplies by
  \<^verbatim>\<open>question.points || 1\<close>. What holds: for a non-empty set \<open>C\<close> of correct option ids
  (the ids pairwise distinct, \<open>n = |C|\<close>) and a set \<open>S\<close> of selected ids (a list without
  repetition), the score is that fraction times \<^verbatim>\<open>points\<close>, or times 1 when \<^verbatim>\<open>points\<close>
  is 0 or null. The witness runs the four examples of the claim: with 4 points and
  correct options A, B, selecting A, B scores 4, selecting A scores 2, selecting A, C
  scores 0 and selecting A, B, C, D scores 0.
\<close>

theorem gradeMultipleSelect_formula:
  assumes "correctIds q \<noteq> []" and "distinct (correctIds q)" and "distinct (selectedIds a)"
  shows "gradeMultipleSelect a q =
    Inr (max 0 ((of_int (int (card (set (correctIds q) \<inter> set (selectedIds a)))
                   - (int (card (set (selectedIds a)))
                      - int (card (set (correctIds q) \<inter> set (selectedIds a))))))
                / of_nat (card (set (correctIds q)))) * pointsOrOne q)
    \<and> (\<forall>p. points q = Some p \<and> p \<noteq> 0 \<longrightarrow> pointsOrOne q = of_int p)
    \<and> (points q = None \<or> points q = Some 0 \<longrightarrow> pointsOrOne q = 1)"
proof -
  from assms(1) have ne: "correctOptions q \<noteq> []" by (auto simp: correctIds_def)
  have "gradeMultipleSelect a q =
    Inr (max 0 ((of_int (int (card (set (correctIds q) \<inter> set (selectedIds a)))
                   - (int (card (set (selectedIds a)))
                      - int (card (set (correctIds q) \<inter> set (selectedIds a))))))
                / of_nat (card (set (correctIds q)))) * pointsOrOne q)"
    unfolding gradeMultipleSelect_eq[OF ne]
      correctSelected_card[OF assms(3)] distinct_card[OF assms(2)] distinct_card[OF assms(3)]
    by (rule refl)
  then show ?thesis
    using pointsOrOne_nonzero[of q] pointsOrOne_fallback[of q] by blast
qed

theorem gradeMultipleSelect_formula_witness:
  "gradeMultipleSelect (selecting [''A'', ''B''] (selectQuestion (Some 4))) (selectQuestion (Some 4)) = Inr 4
   \<and> gradeMultipleSelect (selecting [''A''] (selectQuestion (Some 4))) (selectQuestion (Some 4)) = Inr 2
   \<and> gradeMultipleSelect (selecting [''A'', ''C''] (selectQuestion (Some 4))) (selectQuestion (Some 4)) = Inr 0
   \<and> gradeMultipleSelect (selecting [''A'', ''B'', ''C'', ''D''] (selectQuestion (Some 4)))
        (selectQuestion (Some 4)) = Inr 0"
proof -
  have c: "set (correctIds (selectQuestion (Some 4))) = {''A'', ''B''}"
    "correctIds (selectQuestion (Some 4)) \<noteq> []" "distinct (correctIds (selectQuestion (Some 4)))"
    "points (selectQuestion (Some 4)) = Some 4"
    by (simp_all add: example_defs local_defs)
  have s: "selectedIds (selecting ids q) = ids" for ids q
    by (simp add: example_defs local_defs)
  have i: "{''A'', ''B''} \<inter> {''A'', ''B''} = {''A'', ''B''}" "{''A'', ''B''} \<inter> {''A''} = {''A''}"
    "{''A'', ''B''} \<inter> {''A'', ''C''} = {''A''}"
    "{''A'', ''B''} \<inter> {''A'', ''B'', ''C'', ''D''} = {''A'', ''B''}"
    by auto
  show ?thesis
    using gradeMultipleSelect_formula [of "selectQuestion (Some 4)"
        "selecting [''A'', ''B''] (selectQuestion (Some 4))"]
      gradeMultipleSelect_formula [of "selectQuestion (Some 4)"
        "selecting [''A''] (selectQuestion (Some 4))"]
      gradeMultipleSelect_formula [of "selectQuestion (Some 4)"
        "selecting [''A'', ''C''] (selectQuestion (Some 4))"]
      gradeMultipleSelect_formula [of "selectQuestion (Some 4)"
        "selecting [''A'', ''B'', ''C'', ''D''] (selectQuestion (Some 4))"]
    by (simp add: c s i)
qed

text \<open>
  With \<^verbatim>\<open>points = 0\<close> and both correct options selected the score is 1, where the
  formula of the claim gives 0.
\<close>

theorem zero_points_multiple_select_counterexample:
  "points (selectQuestion (Some 0)) = Some 0
   \<and> gradeMultipleSelect (selecting [''A'', ''B''] (selectQuestion (Some 0))) (selectQuestion (Some 0))
       = Inr 1
   \<and> max 0 ((of_int (int (card ({''A'', ''B''} \<inter> {''A'', ''B''} :: string set))
                - (int (card ({''A'', ''B''} :: string set))
                   - int (card ({''A'', ''B''} \<inter> {''A'', ''B''} :: string set)))))
              / of_nat (card ({''A'', ''B''} :: string set))) * of_int 0 = (0 :: rat)"
  by (simp add: example_defs local_defs gradeMultipleSelect_def)

text \<open>
  \<^bold>\<open>C5\<close> (as amended). The claim: the score is \<open>(correctCount / m) * points\<close>, and
  mapping entries under keys that are no left item of a correct pair never change it.
  The source multiplies by \<^verbatim>\<open>question.points || 1\<close>. What holds: for a non-empty list
  of \<open>m\<close> correct pairs the score is \<open>correctCount / m\<close> times \<^verbatim>\<open>points\<close>, or times 1 when
  \<^verbatim>\<open>points\<close> is 0 or null, where \<open>correctCount\<close> is the number of pairs \<open>(left, right)\<close>
  that the student's mapping sends from \<open>left\<close> to exactly \<open>right\<close>. Two answers whose
  mappings agree on the left items of the correct pairs get the same score, so entries
  under any other key change nothing.
\<close>

theorem gradeMatching_formula:
  assumes "correctPairs q \<noteq> []"
  shows "gradeMatching a q =
           Inr (of_nat (length (filter (\<lambda>pr. studentMatches a (left_item pr) = Some (right_item pr))
                                  (correctPairs q)))
                  / of_nat (length (correctPairs q)) * pointsOrOne q)
         \<and> (\<forall>a'. (\<forall>pr \<in> set (correctPairs q).
                    studentMatches a' (left_item pr) = studentMatches a (left_item pr))
                \<longrightarrow> gradeMatching a' q = gradeMatching a q)
         \<and> (\<forall>p. points q = Some p \<and> p \<noteq> 0 \<longrightarrow> pointsOrOne q = of_int p)
         \<and> (points q = None \<or> points q = Some 0 \<longrightarrow> pointsOrOne q = 1)"
proof -
  have "gradeMatching a' q = gradeMatching a q"
    if "\<forall>pr \<in> set (correctPairs q). studentMatches a' (left_item pr) = studentMatches a (left_item pr)"
    for a'
  proof -
    from that have
      "filter (\<lambda>pr. studentMatches a' (left_item pr) = Some (right_item pr)) (correctPairs q)
        = filter (\<lambda>pr. studentMatches a (left_item pr) = Some (right_item pr)) (correctPairs q)"
      by (intro filter_cong) auto
    then show ?thesis by (simp add: gradeMatching_eq[OF assms])
  qed
  then show ?thesis
    using pointsOrOne_nonzero[of q] pointsOrOne_fallback[of q]
    by (simp add: gradeMatching_eq[OF assms])
qed

theorem gradeMatching_formula_witness:
  "gradeMatching (matchingWith [''cat'' \<mapsto> ''kucing'', ''dog'' \<mapsto> ''kuda''] (matchQuestion (Some 10)))
       (matchQuestion (Some 10)) = Inr 5
   \<and> gradeMatching
        (matchingWith [''cat'' \<mapsto> ''kucing'', ''dog'' \<mapsto> ''kuda'', ''bird'' \<mapsto> ''ikan'']
           (matchQuestion (Some 10)))
        (matchQuestion (Some 10)) = Inr 5"
proof -
  let ?q = "matchQuestion (Some 10)"
  let ?a = "matchingWith [''cat'' \<mapsto> ''kucing'', ''dog'' \<mapsto> ''kuda''] ?q"
  let ?a' = "matchingWith [''cat'' \<mapsto> ''kucing'', ''dog'' \<mapsto> ''kuda'', ''bird'' \<mapsto> ''ikan''] ?q"
  have h: "correctPairs ?q \<noteq> []"
    by (simp add: example_defs local_defs)
  note f = gradeMatching_formula [OF h, of ?a]
  have v: "gradeMatching ?a ?q = Inr 5"
    using f by (simp add: example_defs local_defs)
  have "\<forall>pr \<in> set (correctPairs ?q). studentMatches ?a' (left_item pr) = studentMatches ?a (left_item pr)"
    by (simp add: example_defs local_defs)
  with f have "gradeMatching ?a' ?q = gradeMatching ?a ?q" by blast
  with v show ?thesis by simp
qed

text \<open>
  With \<^verbatim>\<open>points = 0\<close> and both pairs matched the score is 1, where the formula of the
  claim gives 0.
\<close>

theorem zero_points_matching_counterexample:
  "points (matchQuestion (Some 0)) = Some 0
   \<and> gradeMatching (matchingWith [''cat'' \<mapsto> ''kucing'', ''dog'' \<mapsto> ''anjing''] (matchQuestion (Some 0)))
        (matchQuestion (Some 0)) = Inr 1
   \<and> of_nat 2 / of_nat 2 * of_int 0 = (0 :: rat)"
  by (simp add: example_defs local_defs gradeMatching_def countPair_def)

text \<open>
  \<^bold>\<open>C6\<close> (as amended). The claim: the result carries a status that is
  \<open>pending_manual\<close> exactly for essay questions, and an essay never gets a numeric
  auto-graded score. \<open>calculatePoints\<close> returns a number and nothing else; there is no
  status anywhere in the source. What holds: for an essay question \<open>calculatePoints\<close>
  returns the number 0.
\<close>

theorem essay_scores_plain_zero:
  assumes "question a = Some q" and "question_type q = ''essay''"
  shows "calculatePoints a = Inr 0"
  using assms by (simp add: calculatePoints_def)

theorem essay_scores_plain_zero_witness:
  "calculatePoints (writing ''An essay.'' (blankQuestion ''essay'' (Some 10))) = Inr 0"
  using essay_scores_plain_zero [of "writing ''An essay.'' (blankQuestion ''essay'' (Some 10))"
      "blankQuestion ''essay'' (Some 10)"]
  by (simp add: example_defs)

text \<open>
  \<open>gradeSession\<close> stores that 0 as \<^verbatim>\<open>points_awarded\<close> with \<^verbatim>\<open>is_auto_graded: true\<close>: the
  graded essay row carries the same two values as the row of a wrong multiple-choice
  answer graded beside it.
\<close>

theorem essay_auto_graded_zero_counterexample:
  "gradeSession (QueryData [writing ''An essay.'' (blankQuestion ''essay'' (Some 10))])
     = Inr (QueryData [answer_row.extend (writing ''An essay.'' (blankQuestion ''essay'' (Some 10)))
                         (graded_row.fields True 0)])
   \<and> map (\<lambda>g. (is_auto_graded g, points_awarded g))
        (case gradeSession (QueryData [writing ''An essay.'' (blankQuestion ''essay'' (Some 10)),
                                       selecting [''B''] (choiceQuestion (Some 10))]) of
           Inr (QueryData graded) \<Rightarrow> graded | _ \<Rightarrow> [])
     = [(True, 0), (True, 0)]"
  by (simp add: example_defs local_defs gradeSession_def calculatePoints_def
      gradeMultipleChoice_def answer_row.defs graded_row.defs)

text \<open>
  \<^bold>\<open>C7\<close> (as amended). The claim: grading never throws, also for an answer key without
  text, and a missing question returns 0 with the status "ungraded". The source
  returns a bare number, and \<^verbatim>\<open>correct.correct_answer.toLowerCase()\<close> raises on a key
  without text. What holds: when every key of a short-answer question has a text,
  \<open>calculatePoints\<close> returns a number. That number is 0 for a missing question, for a
  question type outside the four graded ones, for a multiple-choice or multiple-select
  answer without \<^verbatim>\<open>selected_options\<close>, for a matching answer without
  \<^verbatim>\<open>matching_answers\<close>, for a short answer without \<^verbatim>\<open>answer_text\<close> (no key being the
  empty text), and for a question that carries neither options nor pairs nor keys.
\<close>

theorem calculatePoints_never_throws_when_keys_have_text:
  assumes keys: "\<And>q. question a = Some q \<Longrightarrow> question_type q = ''short_answer'' \<Longrightarrow>
                   list_all (\<lambda>k. correct_answer k \<noteq> None) (correctAnswers q)"
  shows "(\<exists>r. calculatePoints a = Inr r)
    \<and> (question a = None \<longrightarrow> calculatePoints a = Inr 0)
    \<and> (\<forall>q. question a = Some q
           \<and> question_type q \<notin> {''multiple_choice'', ''multiple_select'', ''matching'', ''short_answer''}
         \<longrightarrow> calculatePoints a = Inr 0)
    \<and> (\<forall>q. question a = Some q
           \<and> question_type q \<in> {''multiple_choice'', ''multiple_select''}
           \<and> selected_options a = None
         \<longrightarrow> calculatePoints a = Inr 0)
    \<and> (\<forall>q. question a = Some q \<and> question_type q = ''matching'' \<and> matching_answers a = None
         \<longrightarrow> calculatePoints a = Inr 0)
    \<and> (\<forall>q. question a = Some q \<and> question_type q = ''short_answer'' \<and> answer_text a = None
           \<and> list_all (\<lambda>k. correct_answer k \<noteq> Some []) (correctAnswers q)
         \<longrightarrow> calculatePoints a = Inr 0)
    \<and> (\<forall>q. question a = Some q \<and> options q = None \<and> matching_pairs q = None
           \<and> short_answer_keys q = None
         \<longrightarrow> calculatePoints a = Inr 0)"
proof -
  have total: "\<exists>r. calculatePoints a = Inr r"
  proof (cases "question a")
    case None
    then show ?thesis by (simp add: calculatePoints_def)
  next
    case (Some q)
    show ?thesis
    proof (cases "question_type q = ''short_answer''")
      case True
      from shortAnswerLoop_total[OF keys[OF Some True]] True Some show ?thesis
        by (simp add: calculatePoints_def gradeShortAnswer_def)
    next
      case False
      with Some gradeMultipleChoice_total[of a q] gradeMultipleSelect_total[of a q]
        gradeMatching_total[of a q]
      show ?thesis by (simp add: calculatePoints_def)
    qed
  qed
  have noq: "question a = None \<longrightarrow> calculatePoints a = Inr 0"
    by (simp add: calculatePoints_def)
  have other: "calculatePoints a = Inr 0"
    if "question a = Some q"
      "question_type q \<notin> {''multiple_choice'', ''multiple_select'', ''matching'', ''short_answer''}"
    for q
    using that by (simp add: calculatePoints_def)
  have sel: "calculatePoints a = Inr 0"
    if "question a = Some q" "question_type q \<in> {''multiple_choice'', ''multiple_select''}"
      "selected_options a = None" for q
    using that gradeMultipleChoice_nothing_selected[of a q] gradeMultipleSelect_nothing_selected[of a q]
    by (auto simp: calculatePoints_def)
  have mat: "calculatePoints a = Inr 0"
    if "question a = Some q" "question_type q = ''matching''" "matching_answers a = None" for q
    using that gradeMatching_nothing_matched[of a q] by (simp add: calculatePoints_def)
  have emptytext: "calculatePoints a = Inr 0"
    if q: "question a = Some q" "question_type q = ''short_answer''" and t: "answer_text a = None"
      and ne: "list_all (\<lambda>k. correct_answer k \<noteq> Some []) (correctAnswers q)" for q
  proof -
    from keys[OF q] ne
    have "list_all (\<lambda>k. correct_answer k \<noteq> None \<and> correct_answer k \<noteq> Some []) (correctAnswers q)"
      by (simp add: list_all_iff)
    from shortAnswerLoop_empty_answer[OF this] q show ?thesis
      by (simp add: calculatePoints_def gradeShortAnswer_def studentAnswer_missing[OF t])
  qed
  have nodata: "calculatePoints a = Inr 0"
    if "question a = Some q" "options q = None" "matching_pairs q = None" "short_answer_keys q = None"
    for q
    using that
    by (simp add: calculatePoints_def gradeMultipleChoice_def gradeMultipleSelect_def
        gradeMatching_def gradeShortAnswer_def correctOption_def correctOptions_def
        correctPairs_def correctAnswers_def)
  from total noq other sel mat emptytext nodata show ?thesis by blast
qed

theorem calculatePoints_never_throws_when_keys_have_text_witness:
  "(\<exists>r. calculatePoints (writing ''x'' (parisQuestion False (Some 5))) = Inr r)
   \<and> calculatePoints (matchingWith [''cat'' \<mapsto> ''kucing''] (selectQuestion (Some 4))) = Inr 0
   \<and> calculatePoints (blankAnswer (parisQuestion False (Some 5))) = Inr 0"
proof -
  let ?q = "parisQuestion False (Some 5)"
  let ?s = "selectQuestion (Some 4)"
  have keys: "list_all (\<lambda>k. correct_answer k \<noteq> None) (correctAnswers ?q)"
    by (simp add: example_defs correctAnswers_def)
  have k1: "list_all (\<lambda>k. correct_answer k \<noteq> None) (correctAnswers q)"
    if "question (writing ''x'' ?q) = Some q" for q
  proof -
    from that have "q = ?q" by (simp add: writing_def blankAnswer_def)
    with keys show ?thesis by simp
  qed
  have k2: "list_all (\<lambda>k. correct_answer k \<noteq> None) (correctAnswers q)"
    if "question (matchingWith [''cat'' \<mapsto> ''kucing''] ?s) = Some q"
      "question_type q = ''short_answer''" for q
  proof -
    from that(1) have "q = ?s" by (simp add: matchingWith_def blankAnswer_def)
    with that(2) show ?thesis by (simp add: example_defs)
  qed
  have k3: "list_all (\<lambda>k. correct_answer k \<noteq> None) (correctAnswers q)"
    if "question (blankAnswer ?q) = Some q" for q
  proof -
    from that have "q = ?q" by (simp add: blankAnswer_def)
    with keys show ?thesis by simp
  qed
  have a: "\<exists>r. calculatePoints (writing ''x'' ?q) = Inr r"
    using calculatePoints_never_throws_when_keys_have_text [of "writing ''x'' ?q"] k1 by blast
  have "question (matchingWith [''cat'' \<mapsto> ''kucing''] ?s) = Some ?s
        \<and> question_type ?s \<in> {''multiple_choice'', ''multiple_select''}
        \<and> selected_options (matchingWith [''cat'' \<mapsto> ''kucing''] ?s) = None"
    by (simp add: example_defs)
  then have b: "calculatePoints (matchingWith [''cat'' \<mapsto> ''kucing''] ?s) = Inr 0"
    using calculatePoints_never_throws_when_keys_have_text
      [of "matchingWith [''cat'' \<mapsto> ''kucing''] ?s"] k2 by blast
  have "question (blankAnswer ?q) = Some ?q \<and> question_type ?q = ''short_answer''
        \<and> answer_text (blankAnswer ?q) = None
        \<and> list_all (\<lambda>k. correct_answer k \<noteq> Some []) (correctAnswers ?q)"
    by (simp add: example_defs correctAnswers_def)
  then have c: "calculatePoints (blankAnswer ?q) = Inr 0"
    using calculatePoints_never_throws_when_keys_have_text [of "blankAnswer ?q"] k3 by blast
  from a b c show ?thesis by blast
qed

text \<open>
  A short-answer question whose key has no text makes \<open>calculatePoints\<close> raise a
  TypeError, and the exception leaves the \<^verbatim>\<open>map\<close> of \<open>gradeSession\<close>, so the rows graded
  beside it are lost as well.
\<close>

theorem key_without_text_throws_counterexample:
  "calculatePoints (writing ''x'' textlessKeyQuestion) = Inl TypeError
   \<and> gradeSession (QueryData [selecting [''A''] (choiceQuestion (Some 3)),
                              writing ''x'' textlessKeyQuestion]) = Inl TypeError"
  by (simp add: example_defs local_defs gradeSession_def calculatePoints_def
      gradeShortAnswer_def gradeMultipleChoice_def)

text \<open>
  \<^bold>\<open>C8\<close>. A multiple-select question with no option flagged \<^verbatim>\<open>is_correct\<close> (or no
  options at all) and a matching question with no pairs score exactly 0 for every
  answer: the scorers return before the division, so the outcome is the number 0 and
  neither \<open>TypeError\<close> nor \<open>NonFinite\<close>. The same holds through \<open>calculatePoints\<close>.
\<close>

theorem zero_denominator_scores_zero:
  "(correctOptions q = [] \<longrightarrow> gradeMultipleSelect a q = Inr 0)
   \<and> (correctPairs q = [] \<longrightarrow> gradeMatching a q = Inr 0)
   \<and> (question a = Some q \<and> question_type q = ''multiple_select'' \<and> correctOptions q = []
        \<longrightarrow> calculatePoints a = Inr 0)
   \<and> (question a = Some q \<and> question_type q = ''matching'' \<and> correctPairs q = []
        \<longrightarrow> calculatePoints a = Inr 0)"
  by (simp add: gradeMultipleSelect_def gradeMatching_def calculatePoints_def)

theorem zero_denominator_scores_zero_witness:
  "calculatePoints (selecting [''A'', ''B''] (blankQuestion ''multiple_select'' (Some 4))) = Inr 0
   \<and> calculatePoints
        (matchingWith [''cat'' \<mapsto> ''kucing''] (blankQuestion ''matching'' (Some 4))) = Inr 0
   \<and> gradeMultipleSelect (selecting [''A''] (blankQuestion ''multiple_select'' (Some 4)))
        ((blankQuestion ''multiple_select'' (Some 4))
           \<lparr>options := Some [\<lparr>opt_id = ''A'', is_correct = False\<rparr>]\<rparr>) = Inr 0
   \<and> gradeMatching (matchingWith [''cat'' \<mapsto> ''kucing''] (blankQuestion ''matching'' (Some 4)))
        ((blankQuestion ''matching'' (Some 4))\<lparr>matching_pairs := Some []\<rparr>) = Inr 0"
  using zero_denominator_scores_zero [of "blankQuestion ''multiple_select'' (Some 4)"
      "selecting [''A'', ''B''] (blankQuestion ''multiple_select'' (Some 4))"]
    zero_denominator_scores_zero [of "blankQuestion ''matching'' (Some 4)"
      "matchingWith [''cat'' \<mapsto> ''kucing''] (blankQuestion ''matching'' (Some 4))"]
    zero_denominator_scores_zero [of "(blankQuestion ''multiple_select'' (Some 4))
           \<lparr>options := Some [\<lparr>opt_id = ''A'', is_correct = False\<rparr>]\<rparr>"
      "selecting [''A''] (blankQuestion ''multiple_select'' (Some 4))"]
    zero_denominator_scores_zero [of "(blankQuestion ''matching'' (Some 4))\<lparr>matching_pairs := Some []\<rparr>"
      "matchingWith [''cat'' \<mapsto> ''kucing''] (blankQuestion ''matching'' (Some 4))"]
  by (simp add: example_defs local_defs)

text \<open>
  \<^bold>\<open>C9\<close>. Setting the \<^verbatim>\<open>is_case_sensitive\<close> flag of any one key (position \<open>i\<close>) to any
  value \<open>b\<close>, in particular flipping it, leaves the result of \<open>gradeShortAnswer\<close>
  unchanged, for every answer and every list of keys.
\<close>

theorem case_sensitive_flag_has_no_effect:
  "gradeShortAnswer a (q\<lparr>short_answer_keys := Some (ks[i := (ks ! i)\<lparr>is_case_sensitive := b\<rparr>])\<rparr>)
   = gradeShortAnswer a (q\<lparr>short_answer_keys := Some ks\<rparr>)"
proof -
  have m: "map correct_answer (ks[i := (ks ! i)\<lparr>is_case_sensitive := b\<rparr>]) = map correct_answer ks"
  proof (cases "i < length ks")
    case True
    then show ?thesis by (simp add: map_update list_update_same_conv)
  next
    case False
    then have "length ks \<le> i" by simp
    then have "ks[i := (ks ! i)\<lparr>is_case_sensitive := b\<rparr>] = ks"
      by (rule list_update_beyond)
    then show ?thesis by (rule arg_cong)
  qed
  have p: "pointsOrOne (q\<lparr>short_answer_keys := x\<rparr>) = pointsOrOne q" for x
    by (simp add: pointsOrOne_def)
  have l: "shortAnswerLoop s (q\<lparr>short_answer_keys := x\<rparr>) ks' = shortAnswerLoop s q ks'" for s x ks'
    by (rule shortAnswerLoop_points) (rule p)
  show ?thesis
    by (simp add: gradeShortAnswer_def correctAnswers_def l shortAnswerLoop_flags[OF m])
qed

theorem case_sensitive_flag_has_no_effect_witness:
  "gradeShortAnswer (writing ''paris'' (parisQuestion True (Some 5))) (parisQuestion True (Some 5))
   = gradeShortAnswer (writing ''paris'' (parisQuestion True (Some 5))) (parisQuestion False (Some 5))"
  using case_sensitive_flag_has_no_effect
    [where a = "writing ''paris'' (parisQuestion True (Some 5))"
       and q = "parisQuestion False (Some 5)"
       and ks = "[\<lparr>correct_answer = Some ''Paris'', is_case_sensitive = False\<rparr>]"
       and i = 0 and b = True]
  by (simp add: example_defs)

text \<open>
  \<^bold>\<open>C10\<close>. For a question whose \<^verbatim>\<open>points\<close> is 0, null or absent, each of the four
  scorers returns what it returns for the same question with \<^verbatim>\<open>points = 1\<close>, and a
  fully correct answer is awarded 1: the first selected id is the first correct option
  (multiple choice); the selection, without repetition, is exactly the set of correct
  ids (multiple select); every correct pair is matched (matching); the normalized text
  equals the lower-cased text of some key, all keys having a text (short answer).
\<close>

theorem zero_or_missing_points_count_as_one:
  assumes z: "points q = None \<or> points q = Some 0"
  shows "gradeMultipleChoice a q = gradeMultipleChoice a (q\<lparr>points := Some 1\<rparr>)
    \<and> gradeMultipleSelect a q = gradeMultipleSelect a (q\<lparr>points := Some 1\<rparr>)
    \<and> gradeMatching a q = gradeMatching a (q\<lparr>points := Some 1\<rparr>)
    \<and> gradeShortAnswer a q = gradeShortAnswer a (q\<lparr>points := Some 1\<rparr>)
    \<and> (\<forall>c others rest.
          correctOptions q = c # others \<and> selected_options a = Some (opt_id c # rest)
          \<longrightarrow> gradeMultipleChoice a q = Inr 1)
    \<and> (correctIds q \<noteq> [] \<and> distinct (correctIds q) \<and> distinct (selectedIds a)
          \<and> set (selectedIds a) = set (correctIds q)
        \<longrightarrow> gradeMultipleSelect a q = Inr 1)
    \<and> (correctPairs q \<noteq> []
          \<and> (\<forall>pr \<in> set (correctPairs q). studentMatches a (left_item pr) = Some (right_item pr))
        \<longrightarrow> gradeMatching a q = Inr 1)
    \<and> (list_all (\<lambda>k. correct_answer k \<noteq> None) (correctAnswers q)
          \<and> (\<exists>k \<in> set (correctAnswers q). \<exists>t. correct_answer k = Some t
                 \<and> toLowerCase t = studentAnswer a)
        \<longrightarrow> gradeShortAnswer a q = Inr 1)"
proof -
  note P = pointsOrOne_points_update[OF z]
  note one = pointsOrOne_fallback[OF z]
  have same: "correctOption (q\<lparr>points := Some 1\<rparr>) = correctOption q"
    "correctOptions (q\<lparr>points := Some 1\<rparr>) = correctOptions q"
    "correctIds (q\<lparr>points := Some 1\<rparr>) = correctIds q"
    "correctPairs (q\<lparr>points := Some 1\<rparr>) = correctPairs q"
    "correctAnswers (q\<lparr>points := Some 1\<rparr>) = correctAnswers q"
    by (simp_all add: correctOption_def correctOptions_def correctIds_def correctPairs_def
        correctAnswers_def)
  have mc: "gradeMultipleChoice a q = gradeMultipleChoice a (q\<lparr>points := Some 1\<rparr>)"
    unfolding gradeMultipleChoice_def same P by (rule refl)
  have ms: "gradeMultipleSelect a q = gradeMultipleSelect a (q\<lparr>points := Some 1\<rparr>)"
    unfolding gradeMultipleSelect_def same P by (rule refl)
  have ma: "gradeMatching a q = gradeMatching a (q\<lparr>points := Some 1\<rparr>)"
    unfolding gradeMatching_def same P by (rule refl)
  have sa: "gradeShortAnswer a q = gradeShortAnswer a (q\<lparr>points := Some 1\<rparr>)"
    unfolding gradeShortAnswer_def same by (rule shortAnswerLoop_points[OF P[symmetric]])
  have mc1: "gradeMultipleChoice a q = Inr 1"
    if "correctOptions q = c # others" "selected_options a = Some (opt_id c # rest)"
    for c others rest
    using gradeMultipleChoice_correct[OF that] one by simp
  have ms1: "gradeMultipleSelect a q = Inr 1"
    if "correctIds q \<noteq> []" "distinct (correctIds q)" "distinct (selectedIds a)"
      "set (selectedIds a) = set (correctIds q)"
    using gradeMultipleSelect_all_correct[OF that] one by simp
  have ma1: "gradeMatching a q = Inr 1"
    if "correctPairs q \<noteq> []"
      "\<forall>pr \<in> set (correctPairs q). studentMatches a (left_item pr) = Some (right_item pr)"
    using gradeMatching_all_matched[OF that] one by simp
  have sa1: "gradeShortAnswer a q = Inr 1"
    if "list_all (\<lambda>k. correct_answer k \<noteq> None) (correctAnswers q)"
      "\<exists>k \<in> set (correctAnswers q). \<exists>t. correct_answer k = Some t \<and> toLowerCase t = studentAnswer a"
    using shortAnswerLoop_match[OF that, of q] one by (simp add: gradeShortAnswer_def)
  from mc ms ma sa mc1 ms1 ma1 sa1 show ?thesis by blast
qed

theorem zero_or_missing_points_count_as_one_witness:
  "gradeMultipleChoice (selecting [''A''] (choiceQuestion (Some 0))) (choiceQuestion (Some 0)) = Inr 1
   \<and> gradeMultipleSelect (selecting [''B'', ''A''] (selectQuestion None)) (selectQuestion None) = Inr 1
   \<and> gradeMatching (matchingWith [''cat'' \<mapsto> ''kucing'', ''dog'' \<mapsto> ''anjing''] (matchQuestion (Some 0)))
        (matchQuestion (Some 0)) = Inr 1
   \<and> gradeShortAnswer (writing ''Paris'' (parisQuestion False None)) (parisQuestion False None) = Inr 1"
proof -
  have a: "gradeMultipleChoice (selecting [''A''] (choiceQuestion (Some 0))) (choiceQuestion (Some 0)) = Inr 1"
  proof -
    have "points (choiceQuestion (Some 0)) = None \<or> points (choiceQuestion (Some 0)) = Some 0"
      by (simp add: example_defs)
    moreover have "correctOptions (choiceQuestion (Some 0)) = \<lparr>opt_id = ''A'', is_correct = True\<rparr> # []
        \<and> selected_options (selecting [''A''] (choiceQuestion (Some 0)))
            = Some (opt_id \<lparr>opt_id = ''A'', is_correct = True\<rparr> # [])"
      by (simp add: example_defs correctOptions_def)
    ultimately show ?thesis
      using zero_or_missing_points_count_as_one by blast
  qed
  have b: "gradeMultipleSelect (selecting [''B'', ''A''] (selectQuestion None)) (selectQuestion None) = Inr 1"
  proof -
    have "points (selectQuestion None) = None \<or> points (selectQuestion None) = Some 0"
      by (simp add: example_defs)
    moreover have "correctIds (selectQuestion None) \<noteq> [] \<and> distinct (correctIds (selectQuestion None))
        \<and> distinct (selectedIds (selecting [''B'', ''A''] (selectQuestion None)))
        \<and> set (selectedIds (selecting [''B'', ''A''] (selectQuestion None)))
            = set (correctIds (selectQuestion None))"
      by (auto simp: example_defs local_defs)
    ultimately show ?thesis
      using zero_or_missing_points_count_as_one by blast
  qed
  have c: "gradeMatching (matchingWith [''cat'' \<mapsto> ''kucing'', ''dog'' \<mapsto> ''anjing''] (matchQuestion (Some 0)))
        (matchQuestion (Some 0)) = Inr 1"
  proof -
    have "points (matchQuestion (Some 0)) = None \<or> points (matchQuestion (Some 0)) = Some 0"
      by (simp add: example_defs)
    moreover have "correctPairs (matchQuestion (Some 0)) \<noteq> []
        \<and> (\<forall>pr \<in> set (correctPairs (matchQuestion (Some 0))).
              studentMatches (matchingWith [''cat'' \<mapsto> ''kucing'', ''dog'' \<mapsto> ''anjing''] (matchQuestion (Some 0)))
                (left_item pr) = Some (right_item pr))"
      by (simp add: example_defs local_defs)
    ultimately show ?thesis
      using zero_or_missing_points_count_as_one by blast
  qed
  have d: "gradeShortAnswer (writing ''Paris'' (parisQuestion False None)) (parisQuestion False None) = Inr 1"
  proof -
    have "points (parisQuestion False None) = None \<or> points (parisQuestion False None) = Some 0"
      by (simp add: example_defs)
    moreover have "list_all (\<lambda>k. correct_answer k \<noteq> None) (correctAnswers (parisQuestion False None))
        \<and> (\<exists>k \<in> set (correctAnswers (parisQuestion False None)). \<exists>t. correct_answer k = Some t
               \<and> toLowerCase t = studentAnswer (writing ''Paris'' (parisQuestion False None)))"
      by (simp add: example_defs local_defs studentAnswer_def trim_Paris)
    ultimately show ?thesis
      using zero_or_missing_points_count_as_one by blast
  qed
  from a b c d show ?thesis by blast
qed

end
